theory Spec2Isabelle
  imports Main "HOL-Library.Word"
begin

section \<open>Staking parameters of okchain (x/staking/types/params.go)\<close>

text \<open>
  The file embeds the Go package \<^verbatim>\<open>types\<close> of \<^verbatim>\<open>x/staking\<close>: the
  struct \<^verbatim>\<open>Params\<close>, its constructor and defaults, the key/pointer pairs it hands
  to the parameter store, equality by serialisation, the rendering and the validity check.
  Go types are modelled as follows:
  \<^item> \<^verbatim>\<open>uint16\<close> is \<open>16 word\<close>; \<^verbatim>\<open>time.Duration\<close> is an \<^verbatim>\<open>int64\<close> count of
    nanoseconds, \<open>64 word\<close> read with \<open>sint\<close>;
  \<^item> \<^verbatim>\<open>string\<close> and \<^verbatim>\<open>[]byte\<close> are \<open>char list\<close> (a HOL \<open>char\<close> is one byte);
  \<^item> \<^verbatim>\<open>error\<close> is a value: \<open>Inl (Errorf msg)\<close> for \<^verbatim>\<open>fmt.Errorf(msg)\<close>,
    \<open>Inr ()\<close> for \<^verbatim>\<open>nil\<close>.
\<close>

subsection \<open>Types\<close>

type_synonym uint16 = "16 word"

type_synonym Duration = "64 word"

type_synonym bytes = "char list"

text \<open>
  Modelled from the spec: the type \<^verbatim>\<open>sdk.Dec\<close> (package
  \<^verbatim>\<open>github.com/cosmos/cosmos-sdk/types\<close>) is imported, not defined in this
  package. The spec (section 6) describes it as a fixed-precision decimal number type
  supporting comparison against zero and ordering. A fixed-precision decimal is its integer
  numerator over a fixed power of ten, so the model is that unbounded integer;
  \<open>ZeroDec\<close> is the decimal zero and \<open>LTE\<close> the order of the numerators. Every
  \<open>Dec\<close> of the model is a number: a \<^verbatim>\<open>Dec\<close> without a number in it (the zero value
  of the Go struct) is outside the model.
\<close>

type_synonym Dec = int

definition ZeroDec :: Dec where
  "ZeroDec = 0"

definition LTE :: "Dec \<Rightarrow> Dec \<Rightarrow> bool" where
  "LTE d d2 = (d \<le> d2)"

text \<open>The struct \<^verbatim>\<open>Params\<close>, fields in the order of their declaration.\<close>

record Params =
  UnbondingTime :: Duration
  MaxValidators :: uint16
  Epoch :: uint16
  MaxValsToVote :: uint16
  BondDenom :: string
  MinSelfDelegationLimit :: Dec
  MinDelegation :: Dec

datatype error = Errorf string

subsection \<open>Default values\<close>

text \<open>
  The defaults are constants of the imported packages \<^verbatim>\<open>config\<close> and
  \<^verbatim>\<open>sdk\<close>; the model takes them as a parameter, one field per constant that
  \<^verbatim>\<open>DefaultParams\<close> reads.
\<close>

record defaults =
  DefaultUnbondingTime :: Duration
  DefaultMaxValidators :: uint16
  DefaultBondDenom :: string
  DefaultEpoch :: uint16
  DefaultMaxValsToVote :: uint16
  DefaultMinSelfDelegationLimit :: Dec
  DefaultMinDelegation :: Dec

subsection \<open>Keys for parameter access\<close>

definition KeyUnbondingTime :: bytes where
  "KeyUnbondingTime = ''UnbondingTime''"

definition KeyMaxValidators :: bytes where
  "KeyMaxValidators = ''MaxValidators''"

definition KeyBondDenom :: bytes where
  "KeyBondDenom = ''BondDenom''"

definition KeyEpoch :: bytes where
  "KeyEpoch = ''BlocksPerEpoch''"

definition KeyTheEndOfLastEpoch :: bytes where
  "KeyTheEndOfLastEpoch = ''TheEndOfLastEpoch''"

definition KeyMaxValsToVote :: bytes where
  "KeyMaxValsToVote = ''MaxValsToVote''"

definition KeyMinSelfDelegationLimit :: bytes where
  "KeyMinSelfDelegationLimit = ''MinSelfDelegationLimit''"

definition KeyMinDelegation :: bytes where
  "KeyMinDelegation = ''MinDelegation''"

subsection \<open>Construction\<close>

definition NewParams ::
  "Duration \<Rightarrow> uint16 \<Rightarrow> string \<Rightarrow> uint16 \<Rightarrow> uint16 \<Rightarrow> Dec \<Rightarrow> Dec \<Rightarrow> Params" where
  "NewParams unbondingTime maxValidators bondDenom epoch maxValsToVote
      minSelfDelegationLimited minDelegation =
     \<lparr> UnbondingTime = unbondingTime,
       MaxValidators = maxValidators,
       Epoch = epoch,
       MaxValsToVote = maxValsToVote,
       BondDenom = bondDenom,
       MinSelfDelegationLimit = minSelfDelegationLimited,
       MinDelegation = minDelegation \<rparr>"

definition DefaultParams :: "defaults \<Rightarrow> Params" where
  "DefaultParams cfg =
     NewParams (DefaultUnbondingTime cfg) (DefaultMaxValidators cfg)
       (DefaultBondDenom cfg) (DefaultEpoch cfg) (DefaultMaxValsToVote cfg)
       (DefaultMinSelfDelegationLimit cfg) (DefaultMinDelegation cfg)"

subsection \<open>Equality by serialisation\<close>

text \<open>
  \<^verbatim>\<open>ModuleCdc.MustMarshalBinaryLengthPrefixed\<close> belongs to the amino codec, an
  imported library. The codec is a parameter of the model: a function from a
  \<^verbatim>\<open>Params\<close> value to its length-prefixed binary encoding, defined on every value
  (the spec, section 6, has it as a deterministic encoder of the record).
  \<^verbatim>\<open>bytes.Equal\<close> compares two byte slices by length and content.
\<close>

definition bytes_Equal :: "bytes \<Rightarrow> bytes \<Rightarrow> bool" where
  "bytes_Equal a b = (a = b)"

definition Equal :: "(Params \<Rightarrow> bytes) \<Rightarrow> Params \<Rightarrow> Params \<Rightarrow> bool" where
  "Equal MustMarshalBinaryLengthPrefixed p p2 =
     (let bz1 = MustMarshalBinaryLengthPrefixed p;
          bz2 = MustMarshalBinaryLengthPrefixed p2
      in bytes_Equal bz1 bz2)"

subsection \<open>Validation\<close>

definition Validate :: "Params \<Rightarrow> error + unit" where
  "Validate p =
     (if BondDenom p = '''' then
        Inl (Errorf ''staking parameter BondDenom can't be an empty string'')
      else if MaxValidators p = 0 then
        Inl (Errorf ''staking parameter MaxValidators must be a positive integer'')
      else if Epoch p = 0 then
        Inl (Errorf ''staking parameter Epoch must be a positive integer'')
      else if MaxValsToVote p = 0 then
        Inl (Errorf ''staking parameter MaxValsToVote must be a positive integer'')
      else if LTE (MinSelfDelegationLimit p) ZeroDec then
        Inl (Errorf ''staking parameter MinSelfDelegationLimit cannot be a negative integer'')
      else Inr ())"

subsection \<open>Pointers to fields\<close>

text \<open>
  \<^verbatim>\<open>ParamSetPairs\<close> has a pointer receiver and returns the addresses of the receiver's
  fields, so the model needs a store. A \<open>heap\<close> maps the address of each allocated
  \<^verbatim>\<open>Params\<close> object to its current value; an address with no object stands for
  \<^verbatim>\<open>nil\<close>. The pointer \<^verbatim>\<open>&p.F\<close> is the address \<open>p\<close> together with the name of
  the field. A Go value of one of the four field types is a \<open>val\<close>.
\<close>

type_synonym addr = nat

type_synonym heap = "addr \<Rightarrow> Params option"

datatype field =
    FUnbondingTime
  | FMaxValidators
  | FEpoch
  | FMaxValsToVote
  | FBondDenom
  | FMinSelfDelegationLimit
  | FMinDelegation

datatype pointer = FieldPtr addr field

datatype val = VDuration Duration | VUint16 uint16 | VString string | VDec Dec

datatype failure = NilPointerDereference | TypeMismatch | KeyNotFound

text \<open>The value of a field, and the assignment of a value of the field's type to it.\<close>

fun field_get :: "field \<Rightarrow> Params \<Rightarrow> val" where
  "field_get FUnbondingTime p = VDuration (UnbondingTime p)"
| "field_get FMaxValidators p = VUint16 (MaxValidators p)"
| "field_get FEpoch p = VUint16 (Epoch p)"
| "field_get FMaxValsToVote p = VUint16 (MaxValsToVote p)"
| "field_get FBondDenom p = VString (BondDenom p)"
| "field_get FMinSelfDelegationLimit p = VDec (MinSelfDelegationLimit p)"
| "field_get FMinDelegation p = VDec (MinDelegation p)"

fun field_set :: "field \<Rightarrow> val \<Rightarrow> Params \<Rightarrow> failure + Params" where
  "field_set FUnbondingTime (VDuration x) p = Inr (p\<lparr>UnbondingTime := x\<rparr>)"
| "field_set FMaxValidators (VUint16 x) p = Inr (p\<lparr>MaxValidators := x\<rparr>)"
| "field_set FEpoch (VUint16 x) p = Inr (p\<lparr>Epoch := x\<rparr>)"
| "field_set FMaxValsToVote (VUint16 x) p = Inr (p\<lparr>MaxValsToVote := x\<rparr>)"
| "field_set FBondDenom (VString x) p = Inr (p\<lparr>BondDenom := x\<rparr>)"
| "field_set FMinSelfDelegationLimit (VDec x) p = Inr (p\<lparr>MinSelfDelegationLimit := x\<rparr>)"
| "field_set FMinDelegation (VDec x) p = Inr (p\<lparr>MinDelegation := x\<rparr>)"
| "field_set _ _ p = Inl TypeMismatch"

text \<open>Reading \<^verbatim>\<open>*ptr\<close> and the assignment \<^verbatim>\<open>*ptr = v\<close>.\<close>

fun load :: "heap \<Rightarrow> pointer \<Rightarrow> failure + val" where
  "load h (FieldPtr a f) =
     (case h a of
        None \<Rightarrow> Inl NilPointerDereference
      | Some p \<Rightarrow> Inr (field_get f p))"

fun store :: "heap \<Rightarrow> pointer \<Rightarrow> val \<Rightarrow> failure + heap" where
  "store h (FieldPtr a f) v =
     (case h a of
        None \<Rightarrow> Inl NilPointerDereference
      | Some p \<Rightarrow>
          (case field_set f v p of
             Inl e \<Rightarrow> Inl e
           | Inr p' \<Rightarrow> Inr (h(a \<mapsto> p'))))"

subsection \<open>The key/pointer pairs\<close>

record ParamSetPair =
  Key :: bytes
  Value :: pointer

text \<open>
  Taking the address of a field of a \<^verbatim>\<open>nil\<close> receiver panics; otherwise the result is
  the slice literal of the source, pair by pair.
\<close>

definition ParamSetPairs :: "heap \<Rightarrow> addr \<Rightarrow> failure + ParamSetPair list" where
  "ParamSetPairs h p =
     (case h p of
        None \<Rightarrow> Inl NilPointerDereference
      | Some _ \<Rightarrow>
          Inr [\<lparr> Key = KeyUnbondingTime, Value = FieldPtr p FUnbondingTime \<rparr>,
               \<lparr> Key = KeyMaxValidators, Value = FieldPtr p FMaxValidators \<rparr>,
               \<lparr> Key = KeyBondDenom, Value = FieldPtr p FBondDenom \<rparr>,
               \<lparr> Key = KeyEpoch, Value = FieldPtr p FEpoch \<rparr>,
               \<lparr> Key = KeyMaxValsToVote, Value = FieldPtr p FMaxValsToVote \<rparr>,
               \<lparr> Key = KeyMinSelfDelegationLimit, Value = FieldPtr p FMinSelfDelegationLimit \<rparr>,
               \<lparr> Key = KeyMinDelegation, Value = FieldPtr p FMinDelegation \<rparr>])"

text \<open>
  The use a parameter store makes of the pairs: it asks the object at \<open>p\<close> for its
  pairs, takes the pair with the key \<open>k\<close> and assigns \<open>v\<close> through the pointer of that
  pair.
\<close>

definition write_through :: "heap \<Rightarrow> addr \<Rightarrow> bytes \<Rightarrow> val \<Rightarrow> failure + heap" where
  "write_through h p k v =
     (case ParamSetPairs h p of
        Inl e \<Rightarrow> Inl e
      | Inr ps \<Rightarrow>
          (case find (\<lambda>pair. Key pair = k) ps of
             None \<Rightarrow> Inl KeyNotFound
           | Some pair \<Rightarrow> store h (Value pair) v))"

subsection \<open>Rendering\<close>

text \<open>
  \<^verbatim>\<open>String\<close> is one call of \<^verbatim>\<open>fmt.Sprintf\<close> with a format of seven plain verbs
  (\<^verbatim>\<open>%s\<close> and \<^verbatim>\<open>%d\<close>, no flags or widths) and seven operands. Package \<^verbatim>\<open>fmt\<close>
  and the formatting methods of the operand types are imported. The model covers what the
  call uses: text outside verbs is copied, \<^verbatim>\<open>%%\<close> is a percent sign,
  each verb takes the next operand, \<^verbatim>\<open>%d\<close> of a \<^verbatim>\<open>uint16\<close> is its decimal
  numeral, \<^verbatim>\<open>%s\<close> of a string is the string, \<^verbatim>\<open>%s\<close> of a
  \<^verbatim>\<open>time.Duration\<close> is the result of its method \<^verbatim>\<open>String\<close>, a verb without an
  operand gives \<^verbatim>\<open>%!verb(MISSING)\<close> and a lone percent sign at the end
  \<^verbatim>\<open>%!(NOVERB)\<close>. The rest is a parameter, a record of functions: the method
  \<^verbatim>\<open>String\<close> of \<^verbatim>\<open>time.Duration\<close>, the rendering of an \<^verbatim>\<open>sdk.Dec\<close> under
  a verb, the rendering of any other pair of verb and operand, and the text \<^verbatim>\<open>fmt\<close>
  appends for operands left over.
\<close>

record formatters =
  Duration_String :: "Duration \<Rightarrow> string"
  Dec_Format :: "char \<Rightarrow> Dec \<Rightarrow> string"
  other_verb :: "char \<Rightarrow> val \<Rightarrow> string"
  extra_operands :: "val list \<Rightarrow> string"

fun FormatUint :: "nat \<Rightarrow> string" where
  "FormatUint n =
     (if n < 10 then [''0123456789'' ! n]
      else FormatUint (n div 10) @ [''0123456789'' ! (n mod 10)])"

declare FormatUint.simps [simp del]

fun printArg :: "formatters \<Rightarrow> char \<Rightarrow> val \<Rightarrow> string" where
  "printArg ext verb (VDec d) = Dec_Format ext verb d"
| "printArg ext verb (VDuration d) =
     (if verb = CHR ''s'' then Duration_String ext d else other_verb ext verb (VDuration d))"
| "printArg ext verb (VString s) =
     (if verb = CHR ''s'' then s else other_verb ext verb (VString s))"
| "printArg ext verb (VUint16 n) =
     (if verb = CHR ''d'' then FormatUint (unat n) else other_verb ext verb (VUint16 n))"

fun Sprintf :: "formatters \<Rightarrow> string \<Rightarrow> val list \<Rightarrow> string" where
  "Sprintf ext [] [] = []"
| "Sprintf ext [] (a # as) = extra_operands ext (a # as)"
| "Sprintf ext [c] as =
     (if c = CHR ''%'' then ''%!(NOVERB)'' @ Sprintf ext [] as else c # Sprintf ext [] as)"
| "Sprintf ext (c # verb # cs) as =
     (if c \<noteq> CHR ''%'' then c # Sprintf ext (verb # cs) as
      else if verb = CHR ''%'' then CHR ''%'' # Sprintf ext cs as
      else (case as of
              [] \<Rightarrow> ''%!'' @ [verb] @ ''(MISSING)'' @ Sprintf ext cs []
            | a # as' \<Rightarrow> printArg ext verb a @ Sprintf ext cs as'))"

abbreviation TAB :: char where
  "TAB \<equiv> CHR 0x09"

text \<open>
  The format is the raw string literal of the source, line by line; its tabs are written
  \<open>TAB\<close>.
\<close>

definition String :: "formatters \<Rightarrow> Params \<Rightarrow> string" where
  "String ext p =
     Sprintf ext
       (''Params:\<newline>'' @
        ''  Unbonding Time:    '' @ [TAB, TAB] @ ''%s\<newline>'' @
        ''  Max Validators:   '' @ [TAB] @ '' '' @ [TAB] @ ''%d\<newline>'' @
        ''  Epoch: '' @ [TAB, TAB, TAB, TAB, TAB] @ ''%d\<newline>'' @
        ''  Bonded Coin Denom: '' @ [TAB, TAB] @ ''%s\<newline>'' @
        ''  MaxValsToVote:     '' @ [TAB, TAB] @ ''%d\<newline>'' @
        ''  MinSelfDelegationLimited  %d\<newline>'' @
        ''  MinDelegation'' @ [TAB, TAB, TAB, TAB] @ ''%d'')
       [VDuration (UnbondingTime p), VUint16 (MaxValidators p), VUint16 (Epoch p),
        VString (BondDenom p), VUint16 (MaxValsToVote p), VDec (MinSelfDelegationLimit p),
        VDec (MinDelegation p)]"

subsection \<open>The order of the fields in a rendering\<close>

text \<open>
  The text of a field in a rendering is the field's value under the verb the format has for
  it: \<^verbatim>\<open>%s\<close> for a duration and a string, \<^verbatim>\<open>%d\<close> for a \<^verbatim>\<open>uint16\<close> and a
  decimal.
\<close>

fun value_text :: "formatters \<Rightarrow> val \<Rightarrow> string" where
  "value_text ext (VDuration d) = printArg ext (CHR ''s'') (VDuration d)"
| "value_text ext (VString s) = printArg ext (CHR ''s'') (VString s)"
| "value_text ext (VUint16 n) = printArg ext (CHR ''d'') (VUint16 n)"
| "value_text ext (VDec d) = printArg ext (CHR ''d'') (VDec d)"

definition field_text :: "formatters \<Rightarrow> Params \<Rightarrow> field \<Rightarrow> string" where
  "field_text ext p f = value_text ext (field_get f p)"

text \<open>
  \<open>find_after v s\<close> is what follows the first occurrence of \<open>v\<close> in \<open>s\<close>, and
  \<open>occur_in_order vs s\<close> says that the texts \<open>vs\<close> occur in \<open>s\<close> one after the
  other, without overlap. A rendering shows the fields in the order \<open>fs\<close> when their texts
  occur in it in that order.
\<close>

fun find_after :: "'a list \<Rightarrow> 'a list \<Rightarrow> 'a list option" where
  "find_after v [] = (if v = [] then Some [] else None)"
| "find_after v (c # s) =
     (if take (length v) (c # s) = v then Some (drop (length v) (c # s))
      else find_after v s)"

fun occur_in_order :: "'a list list \<Rightarrow> 'a list \<Rightarrow> bool" where
  "occur_in_order [] s = True"
| "occur_in_order (v # vs) s =
     (case find_after v s of None \<Rightarrow> False | Some r \<Rightarrow> occur_in_order vs r)"

definition renders_in_order :: "formatters \<Rightarrow> field list \<Rightarrow> Params \<Rightarrow> bool" where
  "renders_in_order ext fs p = occur_in_order (map (field_text ext p) fs) (String ext p)"

text \<open>
  The order of the fields in the declaration of the struct, which is the order of the
  spec's data model.
\<close>

definition data_model_order :: "field list" where
  "data_model_order =
     [FUnbondingTime, FMaxValidators, FEpoch, FMaxValsToVote, FBondDenom,
      FMinSelfDelegationLimit, FMinDelegation]"

text \<open>
  Formatters to run a rendering with: a duration as its count of nanoseconds and a decimal
  as its numerator, both as decimal numerals.
\<close>

definition FormatInt :: "int \<Rightarrow> string" where
  "FormatInt i = (if i < 0 then ''-'' @ FormatUint (nat (- i)) else FormatUint (nat i))"

definition sample_formatters :: formatters where
  "sample_formatters =
     \<lparr> Duration_String = (\<lambda>d. FormatInt (sint d) @ ''ns''),
       Dec_Format = (\<lambda>verb d. FormatInt d),
       other_verb = (\<lambda>verb a. ''%!'' @ [verb] @ ''(?)''),
       extra_operands = (\<lambda>as. ''%!(EXTRA ?)'') \<rparr>"

section \<open>Properties\<close>

text \<open>
  Claim C6. \<^verbatim>\<open>NewParams\<close> only aggregates: for all seven arguments, whether or not they
  satisfy the invariants that \<^verbatim>\<open>Validate\<close> checks, each field of the result is the
  corresponding argument. The function is total, so it never fails.
\<close>

theorem NewParams_fields:
  "UnbondingTime (NewParams u mv bd e mvv msd md) = u \<and>
   MaxValidators (NewParams u mv bd e mvv msd md) = mv \<and>
   BondDenom (NewParams u mv bd e mvv msd md) = bd \<and>
   Epoch (NewParams u mv bd e mvv msd md) = e \<and>
   MaxValsToVote (NewParams u mv bd e mvv msd md) = mvv \<and>
   MinSelfDelegationLimit (NewParams u mv bd e mvv msd md) = msd \<and>
   MinDelegation (NewParams u mv bd e mvv msd md) = md"
  by (simp add: NewParams_def)

text \<open>
  Claim C1. \<^verbatim>\<open>Equal\<close> holds exactly when the two serialisations are the same byte
  sequence, whatever the codec; so every value equals itself, two calls of
  \<^verbatim>\<open>DefaultParams\<close> give equal values, and \<^verbatim>\<open>DefaultParams\<close> equals
  \<^verbatim>\<open>NewParams\<close> applied to the same seven values.
\<close>

theorem Equal_iff_same_serialisation:
  "Equal cdc a b = (cdc a = cdc b) \<and>
   Equal cdc p p \<and>
   Equal cdc (DefaultParams cfg) (DefaultParams cfg) \<and>
   Equal cdc (DefaultParams cfg)
     (NewParams (DefaultUnbondingTime cfg) (DefaultMaxValidators cfg) (DefaultBondDenom cfg)
        (DefaultEpoch cfg) (DefaultMaxValsToVote cfg) (DefaultMinSelfDelegationLimit cfg)
        (DefaultMinDelegation cfg)) \<and>
   Equal cdc (NewParams u mv bd e mvv msd md)
     \<lparr> UnbondingTime = u, MaxValidators = mv, Epoch = e, MaxValsToVote = mvv,
       BondDenom = bd, MinSelfDelegationLimit = msd, MinDelegation = md \<rparr>"
  by (simp add: Equal_def bytes_Equal_def DefaultParams_def NewParams_def)

text \<open>
  Claim C2. \<^verbatim>\<open>Validate\<close> returns \<^verbatim>\<open>nil\<close> exactly when the five checked invariants
  hold: \<^verbatim>\<open>BondDenom\<close> is not empty, \<^verbatim>\<open>MaxValidators\<close>, \<^verbatim>\<open>Epoch\<close> and
  \<^verbatim>\<open>MaxValsToVote\<close> are positive, and \<^verbatim>\<open>MinSelfDelegationLimit\<close> is greater than
  zero. Otherwise the result is an error value carrying one of five fixed messages, each
  naming the parameter at fault. The function is total and returns nothing but this result:
  its receiver is passed by value and no field is assigned.
\<close>

theorem Validate_ok_iff:
  "(Validate p = Inr ()) =
     (BondDenom p \<noteq> '''' \<and> 0 < MaxValidators p \<and> 0 < Epoch p \<and> 0 < MaxValsToVote p \<and>
      0 < MinSelfDelegationLimit p) \<and>
   Validate p \<in>
     {Inr (),
      Inl (Errorf ''staking parameter BondDenom can't be an empty string''),
      Inl (Errorf ''staking parameter MaxValidators must be a positive integer''),
      Inl (Errorf ''staking parameter Epoch must be a positive integer''),
      Inl (Errorf ''staking parameter MaxValsToVote must be a positive integer''),
      Inl (Errorf ''staking parameter MinSelfDelegationLimit cannot be a negative integer'')}"
  by (simp add: Validate_def LTE_def ZeroDec_def word_gt_0 not_le)

text \<open>
  Claim C3. \<^verbatim>\<open>Validate\<close> reports the first violated invariant in the order empty
  \<^verbatim>\<open>BondDenom\<close>, \<^verbatim>\<open>MaxValidators == 0\<close>, \<^verbatim>\<open>Epoch == 0\<close>,
  \<^verbatim>\<open>MaxValsToVote == 0\<close>, \<^verbatim>\<open>MinSelfDelegationLimit <= 0\<close>: each error is returned
  as soon as its check fails and all earlier checks pass, whatever the later fields hold. In
  particular an empty \<^verbatim>\<open>BondDenom\<close> together with \<^verbatim>\<open>MaxValidators == 0\<close> gives the
  empty-denomination error.
\<close>

theorem Validate_first_violation:
  "(BondDenom p = '''' \<longrightarrow>
      Validate p = Inl (Errorf ''staking parameter BondDenom can't be an empty string'')) \<and>
   (BondDenom p \<noteq> '''' \<and> MaxValidators p = 0 \<longrightarrow>
      Validate p = Inl (Errorf ''staking parameter MaxValidators must be a positive integer'')) \<and>
   (BondDenom p \<noteq> '''' \<and> MaxValidators p \<noteq> 0 \<and> Epoch p = 0 \<longrightarrow>
      Validate p = Inl (Errorf ''staking parameter Epoch must be a positive integer'')) \<and>
   (BondDenom p \<noteq> '''' \<and> MaxValidators p \<noteq> 0 \<and> Epoch p \<noteq> 0 \<and> MaxValsToVote p = 0 \<longrightarrow>
      Validate p = Inl (Errorf ''staking parameter MaxValsToVote must be a positive integer'')) \<and>
   (BondDenom p \<noteq> '''' \<and> MaxValidators p \<noteq> 0 \<and> Epoch p \<noteq> 0 \<and> MaxValsToVote p \<noteq> 0 \<and>
    MinSelfDelegationLimit p \<le> 0 \<longrightarrow>
      Validate p =
        Inl (Errorf ''staking parameter MinSelfDelegationLimit cannot be a negative integer'')) \<and>
   (BondDenom p = '''' \<and> MaxValidators p = 0 \<longrightarrow>
      Validate p = Inl (Errorf ''staking parameter BondDenom can't be an empty string''))"
  by (simp add: Validate_def LTE_def ZeroDec_def)

theorem Validate_first_violation_witness:
  "Validate (NewParams 1814400000000000 0 '''' 0 0 0 0) =
     Inl (Errorf ''staking parameter BondDenom can't be an empty string'') \<and>
   Validate (NewParams 1814400000000000 0 ''stake'' 0 0 0 0) =
     Inl (Errorf ''staking parameter MaxValidators must be a positive integer'') \<and>
   Validate (NewParams 1814400000000000 100 ''stake'' 0 0 0 0) =
     Inl (Errorf ''staking parameter Epoch must be a positive integer'') \<and>
   Validate (NewParams 1814400000000000 100 ''stake'' 200 0 0 0) =
     Inl (Errorf ''staking parameter MaxValsToVote must be a positive integer'') \<and>
   Validate (NewParams 1814400000000000 100 ''stake'' 200 50 0 0) =
     Inl (Errorf ''staking parameter MinSelfDelegationLimit cannot be a negative integer'')"
  using Validate_first_violation [of "NewParams 1814400000000000 0 '''' 0 0 0 0"]
    Validate_first_violation [of "NewParams 1814400000000000 0 ''stake'' 0 0 0 0"]
    Validate_first_violation [of "NewParams 1814400000000000 100 ''stake'' 0 0 0 0"]
    Validate_first_violation [of "NewParams 1814400000000000 100 ''stake'' 200 0 0 0"]
    Validate_first_violation [of "NewParams 1814400000000000 100 ''stake'' 200 50 0 0"]
  by (simp add: NewParams_def)

text \<open>
  Claim C5. \<^verbatim>\<open>Validate\<close> never looks at \<^verbatim>\<open>MinDelegation\<close>: when
  \<^verbatim>\<open>BondDenom\<close> is not empty and \<^verbatim>\<open>MaxValidators\<close>, \<^verbatim>\<open>Epoch\<close>,
  \<^verbatim>\<open>MaxValsToVote\<close> and \<^verbatim>\<open>MinSelfDelegationLimit\<close> are positive, the result is
  \<^verbatim>\<open>nil\<close> for the value \<^verbatim>\<open>MinDelegation\<close> has and for any other value put in its
  place, zero and negative ones included.
\<close>

theorem Validate_ignores_MinDelegation:
  assumes "BondDenom p \<noteq> ''''" and "0 < MaxValidators p" and "0 < Epoch p"
    and "0 < MaxValsToVote p" and "0 < MinSelfDelegationLimit p"
  shows "Validate p = Inr () \<and> Validate (p\<lparr>MinDelegation := md\<rparr>) = Inr ()"
  using assms by (simp add: Validate_def LTE_def ZeroDec_def word_gt_0)

theorem Validate_ignores_MinDelegation_witness:
  "MinDelegation (NewParams 1814400000000000 100 ''stake'' 200 50 1 (- 7)) < 0 \<and>
   Validate (NewParams 1814400000000000 100 ''stake'' 200 50 1 (- 7)) = Inr () \<and>
   Validate ((NewParams 1814400000000000 100 ''stake'' 200 50 1 (- 7))\<lparr>MinDelegation := 0\<rparr>) =
     Inr ()"
  using Validate_ignores_MinDelegation
    [of "NewParams 1814400000000000 100 ''stake'' 200 50 1 (- 7)" 0]
  by (simp add: NewParams_def)

text \<open>
  Claim C9. The result of \<^verbatim>\<open>Validate\<close> is a function of the five checked fields: two
  values that agree on \<^verbatim>\<open>BondDenom\<close>, \<^verbatim>\<open>MaxValidators\<close>, \<^verbatim>\<open>Epoch\<close>,
  \<^verbatim>\<open>MaxValsToVote\<close> and \<^verbatim>\<open>MinSelfDelegationLimit\<close> get the same result, whatever
  their \<^verbatim>\<open>UnbondingTime\<close> and \<^verbatim>\<open>MinDelegation\<close>; replacing
  \<^verbatim>\<open>UnbondingTime\<close> by any duration, a negative one included, leaves the result as it is.
\<close>

theorem Validate_depends_on_checked_fields:
  assumes "BondDenom p = BondDenom q" and "MaxValidators p = MaxValidators q"
    and "Epoch p = Epoch q" and "MaxValsToVote p = MaxValsToVote q"
    and "MinSelfDelegationLimit p = MinSelfDelegationLimit q"
  shows "Validate p = Validate q \<and>
    Validate (q\<lparr>UnbondingTime := d, MinDelegation := md\<rparr>) = Validate q"
  using assms by (simp add: Validate_def)

theorem Validate_depends_on_checked_fields_witness:
  "sint (UnbondingTime (NewParams (- 1) 100 ''stake'' 200 50 1 (- 7))) < 0 \<and>
   Validate (NewParams (- 1) 100 ''stake'' 200 50 1 (- 7)) =
     Validate (NewParams 1814400000000000 100 ''stake'' 200 50 1 3) \<and>
   Validate ((NewParams 1814400000000000 100 ''stake'' 200 50 1 3)
       \<lparr>UnbondingTime := - 5, MinDelegation := 0\<rparr>) = Inr ()"
  using Validate_depends_on_checked_fields
    [of "NewParams (- 1) 100 ''stake'' 200 50 1 (- 7)"
        "NewParams 1814400000000000 100 ''stake'' 200 50 1 3" "- 5" 0]
  by (simp add: NewParams_def Validate_def LTE_def ZeroDec_def)

subsection \<open>The pairs of an allocated object\<close>

lemma ParamSetPairs_allocated:
  "h a = Some p \<Longrightarrow>
   ParamSetPairs h a =
     Inr [\<lparr> Key = ''UnbondingTime'', Value = FieldPtr a FUnbondingTime \<rparr>,
          \<lparr> Key = ''MaxValidators'', Value = FieldPtr a FMaxValidators \<rparr>,
          \<lparr> Key = ''BondDenom'', Value = FieldPtr a FBondDenom \<rparr>,
          \<lparr> Key = ''BlocksPerEpoch'', Value = FieldPtr a FEpoch \<rparr>,
          \<lparr> Key = ''MaxValsToVote'', Value = FieldPtr a FMaxValsToVote \<rparr>,
          \<lparr> Key = ''MinSelfDelegationLimit'', Value = FieldPtr a FMinSelfDelegationLimit \<rparr>,
          \<lparr> Key = ''MinDelegation'', Value = FieldPtr a FMinDelegation \<rparr>]"
  by (simp add: ParamSetPairs_def KeyUnbondingTime_def KeyMaxValidators_def KeyBondDenom_def
      KeyEpoch_def KeyMaxValsToVote_def KeyMinSelfDelegationLimit_def KeyMinDelegation_def)

lemma ParamSetPairs_nil: "h a = None \<Longrightarrow> ParamSetPairs h a = Inl NilPointerDereference"
  by (simp add: ParamSetPairs_def)

text \<open>
  Claim C4. For every \<^verbatim>\<open>Params\<close> object, \<^verbatim>\<open>ParamSetPairs\<close> returns exactly seven
  pairs, in the order unbonding time, max validators, bond denom, epoch length, max
  validators to vote, min self-delegation limit, min delegation. Their keys are
  \<^verbatim>\<open>UnbondingTime\<close>, \<^verbatim>\<open>MaxValidators\<close>, \<^verbatim>\<open>BondDenom\<close>, \<^verbatim>\<open>BlocksPerEpoch\<close>,
  \<^verbatim>\<open>MaxValsToVote\<close>, \<^verbatim>\<open>MinSelfDelegationLimit\<close> and \<^verbatim>\<open>MinDelegation\<close>, each once,
  and each pair points at the field of that object named by its key. The result does not
  depend on the values stored, so every call on the object gives the same list.
\<close>

theorem ParamSetPairs_seven_keys:
  assumes "h a = Some p"
  shows "\<exists>ps. ParamSetPairs h a = Inr ps \<and> length ps = 7 \<and>
      map Key ps =
        [''UnbondingTime'', ''MaxValidators'', ''BondDenom'', ''BlocksPerEpoch'',
         ''MaxValsToVote'', ''MinSelfDelegationLimit'', ''MinDelegation''] \<and>
      map Value ps =
        [FieldPtr a FUnbondingTime, FieldPtr a FMaxValidators, FieldPtr a FBondDenom,
         FieldPtr a FEpoch, FieldPtr a FMaxValsToVote, FieldPtr a FMinSelfDelegationLimit,
         FieldPtr a FMinDelegation] \<and>
      distinct (map Key ps) \<and>
      set (map Key ps) =
        {''UnbondingTime'', ''MaxValidators'', ''BondDenom'', ''BlocksPerEpoch'',
         ''MaxValsToVote'', ''MinSelfDelegationLimit'', ''MinDelegation''} \<and>
      (\<forall>h' p'. h' a = Some p' \<longrightarrow> ParamSetPairs h' a = Inr ps)"
proof -
  define ps where "ps =
     [\<lparr> Key = ''UnbondingTime'', Value = FieldPtr a FUnbondingTime \<rparr>,
      \<lparr> Key = ''MaxValidators'', Value = FieldPtr a FMaxValidators \<rparr>,
      \<lparr> Key = ''BondDenom'', Value = FieldPtr a FBondDenom \<rparr>,
      \<lparr> Key = ''BlocksPerEpoch'', Value = FieldPtr a FEpoch \<rparr>,
      \<lparr> Key = ''MaxValsToVote'', Value = FieldPtr a FMaxValsToVote \<rparr>,
      \<lparr> Key = ''MinSelfDelegationLimit'', Value = FieldPtr a FMinSelfDelegationLimit \<rparr>,
      \<lparr> Key = ''MinDelegation'', Value = FieldPtr a FMinDelegation \<rparr>]"
  have keys: "map Key ps =
        [''UnbondingTime'', ''MaxValidators'', ''BondDenom'', ''BlocksPerEpoch'',
         ''MaxValsToVote'', ''MinSelfDelegationLimit'', ''MinDelegation'']"
    by (simp add: ps_def)
  have pairs: "ParamSetPairs h a = Inr ps"
    using assms unfolding ps_def by (rule ParamSetPairs_allocated)
  have len: "length ps = 7"
    by (simp add: ps_def)
  have ptrs: "map Value ps =
        [FieldPtr a FUnbondingTime, FieldPtr a FMaxValidators, FieldPtr a FBondDenom,
         FieldPtr a FEpoch, FieldPtr a FMaxValsToVote, FieldPtr a FMinSelfDelegationLimit,
         FieldPtr a FMinDelegation]"
    by (simp add: ps_def)
  have once: "distinct (map Key ps)"
    unfolding keys by simp
  have keyset: "set (map Key ps) =
        {''UnbondingTime'', ''MaxValidators'', ''BondDenom'', ''BlocksPerEpoch'',
         ''MaxValsToVote'', ''MinSelfDelegationLimit'', ''MinDelegation''}"
    unfolding keys by (simp only: list.set)
  have stable: "\<forall>h' p'. h' a = Some p' \<longrightarrow> ParamSetPairs h' a = Inr ps"
  proof (intro allI impI)
    fix h' :: heap and p' :: Params
    assume "h' a = Some p'"
    then show "ParamSetPairs h' a = Inr ps"
      unfolding ps_def by (rule ParamSetPairs_allocated)
  qed
  from pairs len keys ptrs once keyset stable show ?thesis
    by (intro exI [of _ ps] conjI)
qed

theorem ParamSetPairs_seven_keys_witness:
  "map_sum id (map Key)
     (ParamSetPairs [3 \<mapsto> NewParams 1814400000000000 100 ''stake'' 200 50 1 0] 3) =
     Inr [''UnbondingTime'', ''MaxValidators'', ''BondDenom'', ''BlocksPerEpoch'',
          ''MaxValsToVote'', ''MinSelfDelegationLimit'', ''MinDelegation''] \<and>
   map_sum id length
     (ParamSetPairs [3 \<mapsto> NewParams 1814400000000000 100 ''stake'' 200 50 1 0] 3) =
     Inr 7"
proof -
  have "[3 \<mapsto> NewParams 1814400000000000 100 ''stake'' 200 50 1 0] (3::nat) =
      Some (NewParams 1814400000000000 100 ''stake'' 200 50 1 0)"
    by simp
  from ParamSetPairs_seven_keys
    [of "[3 \<mapsto> NewParams 1814400000000000 100 ''stake'' 200 50 1 0]" 3, OF this]
  show ?thesis
    by (elim exE conjE) simp
qed

text \<open>
  Claim C7. Assigning a \<^verbatim>\<open>uint16\<close> through the pointer that \<^verbatim>\<open>ParamSetPairs\<close> pairs
  with the key \<^verbatim>\<open>MaxValidators\<close> succeeds and changes the object the pairs were taken
  from: reading its \<^verbatim>\<open>MaxValidators\<close> afterwards, directly or through the pointer, gives
  the value written, its six other fields are as before, and so is every other object.
\<close>

theorem write_through_MaxValidators:
  assumes "h a = Some p"
  shows "\<exists>h' p'. write_through h a ''MaxValidators'' (VUint16 v) = Inr h' \<and>
      h' a = Some p' \<and>
      MaxValidators p' = v \<and>
      load h' (FieldPtr a FMaxValidators) = Inr (VUint16 v) \<and>
      UnbondingTime p' = UnbondingTime p \<and>
      Epoch p' = Epoch p \<and>
      MaxValsToVote p' = MaxValsToVote p \<and>
      BondDenom p' = BondDenom p \<and>
      MinSelfDelegationLimit p' = MinSelfDelegationLimit p \<and>
      MinDelegation p' = MinDelegation p \<and>
      p' = p\<lparr>MaxValidators := v\<rparr> \<and>
      (\<forall>b. b \<noteq> a \<longrightarrow> h' b = h b)"
proof -
  have "write_through h a ''MaxValidators'' (VUint16 v) =
      Inr (h(a \<mapsto> p\<lparr>MaxValidators := v\<rparr>))"
    using assms by (simp add: write_through_def ParamSetPairs_allocated)
  then show ?thesis
    by simp
qed

theorem write_through_MaxValidators_witness:
  "map_sum id
     (\<lambda>h'. (map_option MaxValidators (h' 3), map_option Epoch (h' 3),
            map_option MaxValidators (h' 5)))
     (write_through
        [3 \<mapsto> NewParams 1814400000000000 100 ''stake'' 200 50 1 0,
         5 \<mapsto> NewParams 1814400000000000 21 ''okt'' 252 30 1 0]
        3 ''MaxValidators'' (VUint16 7)) =
     Inr (Some 7, Some 200, Some 21)"
proof -
  have "[3 \<mapsto> NewParams 1814400000000000 100 ''stake'' 200 50 1 0,
         5 \<mapsto> NewParams 1814400000000000 21 ''okt'' 252 30 1 0] (3::nat) =
      Some (NewParams 1814400000000000 100 ''stake'' 200 50 1 0)"
    by simp
  from write_through_MaxValidators
    [of "[3 \<mapsto> NewParams 1814400000000000 100 ''stake'' 200 50 1 0,
          5 \<mapsto> NewParams 1814400000000000 21 ''okt'' 252 30 1 0]" 3 _ 7, OF this]
  show ?thesis
    by (elim exE conjE) (simp add: NewParams_def)
qed

text \<open>
  Claim C10. The package declares the key \<^verbatim>\<open>TheEndOfLastEpoch\<close> next to the seven keys
  of the pairs, but no pair that \<^verbatim>\<open>ParamSetPairs\<close> returns carries it: the key is bound
  to no field, and a search for it among the pairs finds nothing.
\<close>

theorem ParamSetPairs_never_TheEndOfLastEpoch:
  assumes "h a = Some p"
  shows "\<exists>ps. ParamSetPairs h a = Inr ps \<and>
      KeyTheEndOfLastEpoch = ''TheEndOfLastEpoch'' \<and>
      KeyTheEndOfLastEpoch \<notin> Key ` set ps \<and>
      find (\<lambda>pair. Key pair = KeyTheEndOfLastEpoch) ps = None"
  using assms
  by (simp add: ParamSetPairs_allocated KeyTheEndOfLastEpoch_def)

theorem ParamSetPairs_never_TheEndOfLastEpoch_witness:
  "map_sum id (find (\<lambda>pair. Key pair = ''TheEndOfLastEpoch''))
     (ParamSetPairs [3 \<mapsto> NewParams 1814400000000000 100 ''stake'' 200 50 1 0] 3) =
     Inr None"
proof -
  have "[3 \<mapsto> NewParams 1814400000000000 100 ''stake'' 200 50 1 0] (3::nat) =
      Some (NewParams 1814400000000000 100 ''stake'' 200 50 1 0)"
    by simp
  from ParamSetPairs_never_TheEndOfLastEpoch
    [of "[3 \<mapsto> NewParams 1814400000000000 100 ''stake'' 200 50 1 0]" 3, OF this]
  show ?thesis
    by (elim exE conjE) simp
qed

subsection \<open>Texts occurring in order\<close>

lemma find_after_sound: "find_after v s = Some r \<Longrightarrow> \<exists>a. s = a @ v @ r"
proof (induction s)
  case Nil
  then show ?case by (simp split: if_splits)
next
  case (Cons c s)
  show ?case
  proof (cases "take (length v) (c # s) = v")
    case True
    with Cons.prems have "r = drop (length v) (c # s)" by simp
    with True have "c # s = [] @ v @ r"
      by (metis append_Nil append_take_drop_id)
    then show ?thesis by blast
  next
    case False
    with Cons.prems have "find_after v s = Some r" by simp
    then obtain a where "s = a @ v @ r" using Cons.IH by blast
    then have "c # s = (c # a) @ v @ r" by simp
    then show ?thesis by blast
  qed
qed

lemma find_after_append: "\<exists>x. find_after v (a @ v @ r) = Some (x @ r)"
proof (induction a)
  case Nil
  show ?case
  proof (cases "v @ r")
    case Nil
    then show ?thesis by simp
  next
    case (Cons c s)
    have pre: "take (length v) (c # s) = v"
      by (simp flip: Cons)
    have "find_after v (c # s) = Some (drop (length v) (c # s))"
      by (simp only: find_after.simps pre refl if_True)
    then have "find_after v (v @ r) = Some r"
      by (simp flip: Cons)
    then show ?thesis by simp
  qed
next
  case (Cons c a)
  show ?case
  proof (cases "take (length v) (c # a @ v @ r) = v")
    case True
    have "length v - length (c # a @ v) = 0"
      by simp
    then have "drop (length v) ((c # a @ v) @ r) = drop (length v) (c # a @ v) @ r"
      by (simp only: drop_append drop_0)
    then have "drop (length v) (c # a @ v @ r) = drop (length v) (c # a @ v) @ r"
      by (simp only: append_Cons append_assoc)
    moreover have "find_after v (c # a @ v @ r) = Some (drop (length v) (c # a @ v @ r))"
      by (simp only: find_after.simps True refl if_True)
    ultimately have "find_after v ((c # a) @ v @ r) = Some (drop (length v) (c # a @ v) @ r)"
      by (simp only: append_Cons)
    then show ?thesis by blast
  next
    case False
    then show ?thesis using Cons.IH by simp
  qed
qed

lemma occur_in_order_prepend: "occur_in_order vs r \<Longrightarrow> occur_in_order vs (x @ r)"
proof (induction vs arbitrary: r x)
  case Nil
  show ?case by simp
next
  case (Cons v vs)
  from Cons.prems obtain r1 where r1: "find_after v r = Some r1" and rest: "occur_in_order vs r1"
    by (auto split: option.splits)
  from find_after_sound [OF r1] obtain a where "r = a @ v @ r1" by blast
  then have "x @ r = (x @ a) @ v @ r1" by simp
  moreover obtain y where "find_after v ((x @ a) @ v @ r1) = Some (y @ r1)"
    using find_after_append [of v "x @ a" r1] by blast
  ultimately have "find_after v (x @ r) = Some (y @ r1)" by simp
  moreover have "occur_in_order vs (y @ r1)" using rest by (rule Cons.IH)
  ultimately show ?case by simp
qed

lemma occur_in_order_Cons:
  assumes "occur_in_order vs r"
  shows "occur_in_order (v # vs) (a @ v @ r)"
proof -
  obtain x where "find_after v (a @ v @ r) = Some (x @ r)"
    using find_after_append [of v a r] by blast
  moreover have "occur_in_order vs (x @ r)" using assms by (rule occur_in_order_prepend)
  ultimately show ?thesis by simp
qed

text \<open>
  The search for first occurrences decides the plain reading of "in order": the first text
  somewhere in the string, the others, in order, in what follows it.
\<close>

lemma occur_in_order_Cons_iff:
  "occur_in_order (v # vs) s = (\<exists>a r. s = a @ v @ r \<and> occur_in_order vs r)"
proof
  assume "occur_in_order (v # vs) s"
  then obtain r where r: "find_after v s = Some r" and rest: "occur_in_order vs r"
    by (auto split: option.splits)
  from find_after_sound [OF r] obtain a where "s = a @ v @ r" by blast
  with rest show "\<exists>a r. s = a @ v @ r \<and> occur_in_order vs r" by blast
next
  assume "\<exists>a r. s = a @ v @ r \<and> occur_in_order vs r"
  then obtain a r where "s = a @ v @ r" and "occur_in_order vs r" by blast
  then show "occur_in_order (v # vs) s" by (simp only: occur_in_order_Cons)
qed

subsection \<open>The layout of a rendering\<close>

lemma field_text_simps:
  "field_text ext p FUnbondingTime = Duration_String ext (UnbondingTime p)"
  "field_text ext p FMaxValidators = FormatUint (unat (MaxValidators p))"
  "field_text ext p FEpoch = FormatUint (unat (Epoch p))"
  "field_text ext p FMaxValsToVote = FormatUint (unat (MaxValsToVote p))"
  "field_text ext p FBondDenom = BondDenom p"
  "field_text ext p FMinSelfDelegationLimit = Dec_Format ext (CHR ''d'') (MinSelfDelegationLimit p)"
  "field_text ext p FMinDelegation = Dec_Format ext (CHR ''d'') (MinDelegation p)"
  by (simp_all add: field_text_def)

lemma String_layout:
  "String ext p =
     (''Params:\<newline>  Unbonding Time:    '' @ [TAB, TAB]) @
     field_text ext p FUnbondingTime @
     (''\<newline>  Max Validators:   '' @ [TAB] @ '' '' @ [TAB]) @
     field_text ext p FMaxValidators @
     (''\<newline>  Epoch: '' @ [TAB, TAB, TAB, TAB, TAB]) @
     field_text ext p FEpoch @
     (''\<newline>  Bonded Coin Denom: '' @ [TAB, TAB]) @
     field_text ext p FBondDenom @
     (''\<newline>  MaxValsToVote:     '' @ [TAB, TAB]) @
     field_text ext p FMaxValsToVote @
     ''\<newline>  MinSelfDelegationLimited  '' @
     field_text ext p FMinSelfDelegationLimit @
     (''\<newline>  MinDelegation'' @ [TAB, TAB, TAB, TAB]) @
     field_text ext p FMinDelegation @ []"
  by (simp add: String_def field_text_def)

lemma String_renders_in_order:
  "renders_in_order ext
     [FUnbondingTime, FMaxValidators, FEpoch, FBondDenom, FMaxValsToVote,
      FMinSelfDelegationLimit, FMinDelegation] p"
  unfolding renders_in_order_def list.map String_layout
  by (intro occur_in_order_Cons) simp

text \<open>
  Claim C8, as the spec states it, fails: the rendering does not follow the order of the data
  model. For the parameters \<^verbatim>\<open>NewParams(21 days, 100, "stake", 200, 50, 1, 0)\<close> the
  line of \<^verbatim>\<open>BondDenom\<close> comes before the line of \<^verbatim>\<open>MaxValsToVote\<close>, so the texts
  of the fields, taken in the order of the data model, do not occur in the rendering one
  after the other.
\<close>

theorem String_data_model_order_counterexample:
  "String sample_formatters (NewParams 1814400000000000 100 ''stake'' 200 50 1 0) =
     ''Params:\<newline>'' @
     ''  Unbonding Time:    '' @ [TAB, TAB] @ ''1814400000000000ns\<newline>'' @
     ''  Max Validators:   '' @ [TAB] @ '' '' @ [TAB] @ ''100\<newline>'' @
     ''  Epoch: '' @ [TAB, TAB, TAB, TAB, TAB] @ ''200\<newline>'' @
     ''  Bonded Coin Denom: '' @ [TAB, TAB] @ ''stake\<newline>'' @
     ''  MaxValsToVote:     '' @ [TAB, TAB] @ ''50\<newline>'' @
     ''  MinSelfDelegationLimited  1\<newline>'' @
     ''  MinDelegation'' @ [TAB, TAB, TAB, TAB] @ ''0'' \<and>
   map (field_text sample_formatters (NewParams 1814400000000000 100 ''stake'' 200 50 1 0))
     data_model_order =
     [''1814400000000000ns'', ''100'', ''200'', ''50'', ''stake'', ''1'', ''0''] \<and>
   \<not> renders_in_order sample_formatters data_model_order
       (NewParams 1814400000000000 100 ''stake'' 200 50 1 0)"
  by (simp add: renders_in_order_def data_model_order_def field_text_def String_def
      sample_formatters_def NewParams_def FormatInt_def FormatUint.simps)

text \<open>
  Claim C8, amended. \<^verbatim>\<open>String\<close> produces a fixed layout of eight lines: the heading
  \<^verbatim>\<open>Params:\<close> and one labelled line for each of the seven fields, in the order
  \<^verbatim>\<open>UnbondingTime\<close>, \<^verbatim>\<open>MaxValidators\<close>, \<^verbatim>\<open>Epoch\<close>, \<^verbatim>\<open>BondDenom\<close>,
  \<^verbatim>\<open>MaxValsToVote\<close>, \<^verbatim>\<open>MinSelfDelegationLimit\<close>, \<^verbatim>\<open>MinDelegation\<close>. This is
  the order of the data model with \<^verbatim>\<open>BondDenom\<close> and \<^verbatim>\<open>MaxValsToVote\<close>
  exchanged.
\<close>

theorem String_field_order:
  "String ext p =
     ''Params:\<newline>'' @
     ''  Unbonding Time:    '' @ [TAB, TAB] @ Duration_String ext (UnbondingTime p) @
     ''\<newline>  Max Validators:   '' @ [TAB] @ '' '' @ [TAB] @ FormatUint (unat (MaxValidators p)) @
     ''\<newline>  Epoch: '' @ [TAB, TAB, TAB, TAB, TAB] @ FormatUint (unat (Epoch p)) @
     ''\<newline>  Bonded Coin Denom: '' @ [TAB, TAB] @ BondDenom p @
     ''\<newline>  MaxValsToVote:     '' @ [TAB, TAB] @ FormatUint (unat (MaxValsToVote p)) @
     ''\<newline>  MinSelfDelegationLimited  '' @
       Dec_Format ext (CHR ''d'') (MinSelfDelegationLimit p) @
     ''\<newline>  MinDelegation'' @ [TAB, TAB, TAB, TAB] @
       Dec_Format ext (CHR ''d'') (MinDelegation p) \<and>
   renders_in_order ext
     [FUnbondingTime, FMaxValidators, FEpoch, FBondDenom, FMaxValsToVote,
      FMinSelfDelegationLimit, FMinDelegation] p"
proof
  show "renders_in_order ext
     [FUnbondingTime, FMaxValidators, FEpoch, FBondDenom, FMaxValsToVote,
      FMinSelfDelegationLimit, FMinDelegation] p"
    by (rule String_renders_in_order)
qed (simp add: String_layout field_text_simps)

end
